theory Spec2Isabelle
  imports Main "HOL-Library.Word"
begin

section \<open>JavaScript values used by the server\<close>

text \<open>
  A JavaScript string is a sequence of UTF-16 code units; a \<open>Uint8Array\<close> is a sequence
  of bytes. String literals of the source are written \<open>js ''...''\<close>.
\<close>

type_synonym code_unit = "16 word"
type_synonym jsstring = "code_unit list"
type_synonym byte = "8 word"

definition js :: "string \<Rightarrow> jsstring" where
  "js s = map (\<lambda>c. of_nat (of_char c)) s"

text \<open>
  \<open>String.prototype.trim\<close> strips WhiteSpace and LineTerminator code points from both
  ends (ECMA-262): TAB, LF, VT, FF, CR, SP, NBSP, the Unicode space separators and the
  byte order mark. All of them are single code units.
\<close>

definition isWhiteSpace :: "code_unit \<Rightarrow> bool" where
  "isWhiteSpace c \<longleftrightarrow>
     c = 0x0009 \<or> c = 0x000A \<or> c = 0x000B \<or> c = 0x000C \<or> c = 0x000D \<or> c = 0x0020 \<or>
     c = 0x00A0 \<or> c = 0x1680 \<or> (0x2000 \<le> c \<and> c \<le> 0x200A) \<or> c = 0x2028 \<or>
     c = 0x2029 \<or> c = 0x202F \<or> c = 0x205F \<or> c = 0x3000 \<or> c = 0xFEFF"

definition trim :: "jsstring \<Rightarrow> jsstring" where
  "trim s = rev (dropWhile isWhiteSpace (rev (dropWhile isWhiteSpace s)))"

fun startsWith :: "jsstring \<Rightarrow> jsstring \<Rightarrow> bool" where
  "startsWith s [] = True"
| "startsWith [] (p # ps) = False"
| "startsWith (c # cs) (p # ps) = (c = p \<and> startsWith cs ps)"

text \<open>\<open>String.prototype.includes\<close>: the pattern occurs at some position.\<close>

fun includesStr :: "jsstring \<Rightarrow> jsstring \<Rightarrow> bool" where
  "includesStr [] p = (p = [])"
| "includesStr (c # cs) p = (startsWith (c # cs) p \<or> includesStr cs p)"

text \<open>
  \<open>String.prototype.toLowerCase\<close> on the letters A to Z. The runtime also maps
  non-ASCII letters through the Unicode case tables, which are not part of this
  program; an ASCII letter is mapped to one code unit whatever surrounds it, so a run of
  ASCII text is lowered here exactly as the runtime lowers it.
\<close>

definition toLowerCase :: "jsstring \<Rightarrow> jsstring" where
  "toLowerCase s = map (\<lambda>c. if 0x41 \<le> c \<and> c \<le> 0x5A then c + 0x20 else c) s"

text \<open>
  \<open>String.prototype.replace\<close> with a string pattern replaces the first occurrence only.
  The replacement strings of this program contain no \<open>$\<close> pattern.
\<close>

fun replaceFirst :: "jsstring \<Rightarrow> jsstring \<Rightarrow> jsstring \<Rightarrow> jsstring" where
  "replaceFirst [] pat rep = (if pat = [] then rep else [])"
| "replaceFirst (c # cs) pat rep =
     (if startsWith (c # cs) pat then rep @ drop (length pat) (c # cs)
      else c # replaceFirst cs pat rep)"

text \<open>
  Values as \<open>JSON.parse\<close> and property access produce them. The number of a
  \<open>JNumber\<close> is never inspected by the server beyond its truthiness.
\<close>

datatype jsvalue =
    JUndefined
  | JNull
  | JBool bool
  | JNumber int
  | JString jsstring
  | JArray "jsvalue list"
  | JObject "(jsstring \<times> jsvalue) list"

fun truthy :: "jsvalue \<Rightarrow> bool" where
  "truthy JUndefined = False"
| "truthy JNull = False"
| "truthy (JBool b) = b"
| "truthy (JNumber n) = (n \<noteq> 0)"
| "truthy (JString s) = (s \<noteq> [])"
| "truthy (JArray xs) = True"
| "truthy (JObject kvs) = True"

text \<open>An \<open>Error\<close> object: its \<open>name\<close> and its \<open>message\<close>.\<close>

record js_error =
  name :: jsstring
  message :: jsstring

definition Error :: "jsstring \<Rightarrow> js_error" where
  "Error msg = \<lparr>name = js ''Error'', message = msg\<rparr>"

definition TypeError :: "jsstring \<Rightarrow> js_error" where
  "TypeError msg = \<lparr>name = js ''TypeError'', message = msg\<rparr>"

definition RangeError :: "jsstring \<Rightarrow> js_error" where
  "RangeError msg = \<lparr>name = js ''RangeError'', message = msg\<rparr>"

text \<open>\<open>Error.prototype.toString\<close>.\<close>

definition error_toString :: "js_error \<Rightarrow> jsstring" where
  "error_toString e =
     (if name e = [] then message e
      else if message e = [] then name e
      else name e @ js '': '' @ message e)"

text \<open>
  Reading a property of a parsed JSON value: \<open>null\<close> and \<open>undefined\<close> throw a
  TypeError, an object yields the property or \<open>undefined\<close>, and the other values have
  no property of the names this program reads (\<open>text\<close>, \<open>meta\<close>, \<open>error\<close>, ...).
\<close>

fun getProperty :: "jsvalue \<Rightarrow> jsstring \<Rightarrow> js_error + jsvalue" where
  "getProperty JUndefined k = Inl (TypeError (js ''Cannot read properties of undefined''))"
| "getProperty JNull k = Inl (TypeError (js ''Cannot read properties of null''))"
| "getProperty (JObject kvs) k = Inr (case map_of kvs k of Some v \<Rightarrow> v | None \<Rightarrow> JUndefined)"
| "getProperty v k = Inr JUndefined"

section \<open>Requests and responses\<close>

datatype body = NoBody | Text jsstring | Bytes "byte list" | Json jsvalue

record response =
  status :: nat
  headers :: "(jsstring \<times> jsstring) list"
  body :: body

text \<open>
  What the handlers read of a \<open>Request\<close>: the method, the pathname of its URL, the
  \<open>model\<close> query parameter, \<open>req.headers.get\<close> and the outcome of \<open>req.json()\<close>.
\<close>

record request =
  req_method :: jsstring
  pathname :: jsstring
  model_param :: "jsstring option"
  header_get :: "jsstring \<Rightarrow> jsstring option"
  json_body :: "js_error + jsvalue"

text \<open>
  \<open>new Response(body, {status, headers})\<close> and \<open>Response.json(data, {status, headers})\<close>,
  the status defaulting to 200. The field \<open>headers\<close> holds the headers the handler
  passes, in the order of the object literal; the content type that the runtime adds to
  a string or JSON body when the handler names none is not part of it.
\<close>

definition Response :: "body \<Rightarrow> nat \<Rightarrow> (jsstring \<times> jsstring) list \<Rightarrow> response" where
  "Response b st hs = \<lparr>status = st, headers = hs, body = b\<rparr>"

definition Response_json :: "jsvalue \<Rightarrow> nat \<Rightarrow> (jsstring \<times> jsstring) list \<Rightarrow> response" where
  "Response_json data st hs = \<lparr>status = st, headers = hs, body = Json data\<rparr>"

section \<open>Configuration and collaborators\<close>

text \<open>
  The state fixed at startup: the \<open>SESSION_SECRET\<close> environment variable, the random
  secret generated when it is absent, and the index template read from
  \<open>frontend/dist/index.html\<close> (\<open>None\<close> when the read failed).
\<close>

record config =
  session_secret_env :: "jsstring option"
  random_secret :: jsstring
  indexHtmlTemplate :: "jsstring option"

definition DEFAULT_MODEL :: jsstring where
  "DEFAULT_MODEL = js ''aura-2-thalia-en''"

definition SESSION_SECRET :: "config \<Rightarrow> jsstring" where
  "SESSION_SECRET cfg =
     (case session_secret_env cfg of
        Some s \<Rightarrow> if s \<noteq> [] then s else random_secret cfg
      | None \<Rightarrow> random_secret cfg)"

definition REQUIRE_NONCE :: "config \<Rightarrow> bool" where
  "REQUIRE_NONCE cfg =
     (case session_secret_env cfg of Some s \<Rightarrow> s \<noteq> [] | None \<Rightarrow> False)"

definition NONCE_TTL_MS :: int where
  "NONCE_TTL_MS = 5 * 60 * 1000"

text \<open>
  The collaborators outside the program: the jose library, the speech provider and the
  metadata file. A provider stream is the finite sequence of outcomes of its reader's
  \<open>read()\<close> calls before the one that reports \<open>done\<close>: a chunk, or a rejection.
\<close>

datatype jose_error = JWSInvalid | JWSSignatureVerificationFailed | JWTExpired | JWTInvalid

record jwt_payload =
  iat :: int
  exp :: int

type_synonym audio_stream = "(js_error + byte list) list"

datatype speak_outcome = SpeakRejected js_error | NoStream | Stream audio_stream

record world =
  jose_sign :: "jsstring \<Rightarrow> int \<Rightarrow> jsstring"
  jose_jwtVerify :: "jsstring \<Rightarrow> jsstring \<Rightarrow> jose_error + jwt_payload"
  speak_request :: "jsvalue \<Rightarrow> jsstring \<Rightarrow> speak_outcome"
  metadata_toml :: "js_error + jsvalue"

text \<open>
  What the runtime supplies while one request is handled: the readings of
  \<open>Date.now()\<close> (the index handler reads the clock twice) and the sixteen bytes of
  \<open>crypto.getRandomValues\<close>.
\<close>

record runtime =
  date_now :: int
  date_now_later :: int
  random_values :: "nat \<Rightarrow> byte"

section \<open>Nonce store\<close>

type_synonym nonce_store = "jsstring \<rightharpoonup> int"

definition hexDigit :: "nat \<Rightarrow> code_unit" where
  "hexDigit d = (if d < 10 then of_nat (48 + d) else of_nat (97 + (d - 10)))"

text \<open>\<open>b.toString(16).padStart(2, "0")\<close> for a byte \<open>b\<close>.\<close>

definition toString16 :: "byte \<Rightarrow> jsstring" where
  "toString16 b =
     (if unat b < 16 then [hexDigit (unat b)]
      else [hexDigit (unat b div 16), hexDigit (unat b mod 16)])"

definition padStart2 :: "jsstring \<Rightarrow> jsstring" where
  "padStart2 s = replicate (2 - length s) 0x30 @ s"

definition generateNonce :: "(nat \<Rightarrow> byte) \<Rightarrow> jsstring" where
  "generateNonce array = concat (map (\<lambda>i. padStart2 (toString16 (array i))) [0..<16])"

text \<open>
  \<open>consumeNonce\<close>: the guard \<open>!expiry\<close> holds for a missing entry and also for a
  recorded expiry of 0.
\<close>

definition consumeNonce :: "jsstring \<Rightarrow> int \<Rightarrow> nonce_store \<Rightarrow> bool \<times> nonce_store" where
  "consumeNonce nonce now sessionNonces =
     (case sessionNonces nonce of
        None \<Rightarrow> (False, sessionNonces)
      | Some expiry \<Rightarrow>
          if expiry = 0 then (False, sessionNonces)
          else (now < expiry, sessionNonces(nonce := None)))"

text \<open>The sweep of the 60 second interval and of the index handler.\<close>

definition sweepExpired :: "int \<Rightarrow> nonce_store \<Rightarrow> nonce_store" where
  "sweepExpired now sessionNonces =
     (\<lambda>nonce. case sessionNonces nonce of
                 None \<Rightarrow> None
               | Some expiry \<Rightarrow> if now \<ge> expiry then None else Some expiry)"

section \<open>Session tokens\<close>

text \<open>
  \<open>createSessionToken\<close> signs the claim \<open>iat\<close> (seconds) with HS256 and the expiry
  "1h"; the key is the encoded \<open>SESSION_SECRET\<close>.
\<close>

definition createSessionToken :: "config \<Rightarrow> world \<Rightarrow> int \<Rightarrow> jsstring" where
  "createSessionToken cfg w now = jose_sign w (SESSION_SECRET cfg) (now div 1000)"

text \<open>
  \<open>verifySessionToken\<close>: the result is a sum so that a throw would be a value; the
  \<open>catch\<close> turns every rejection of \<open>jwtVerify\<close> into \<open>false\<close>.
\<close>

definition verifySessionToken :: "config \<Rightarrow> world \<Rightarrow> jsstring \<Rightarrow> js_error + bool" where
  "verifySessionToken cfg w token =
     (case jose_jwtVerify w token (SESSION_SECRET cfg) of
        Inr payload \<Rightarrow> Inr True
      | Inl err \<Rightarrow> Inr False)"

section \<open>Helpers\<close>

definition getCorsHeaders :: "(jsstring \<times> jsstring) list" where
  "getCorsHeaders =
     [(js ''Access-Control-Allow-Origin'', js ''*''),
      (js ''Access-Control-Allow-Methods'', js ''GET, POST, OPTIONS''),
      (js ''Access-Control-Allow-Headers'', js ''Content-Type, Authorization, X-Session-Nonce'')]"

definition required_message :: jsstring where
  "required_message = js ''text field is required and must be a string''"

definition empty_message :: jsstring where
  "empty_message = js ''text cannot be empty''"

text \<open>
  \<open>validateTtsInput\<close>: \<open>!text || typeof text !== "string"\<close> holds for every value
  that is not a string and for the empty string. The function is the same in the
  earlier variants of the server, as are the read loop and the copy of the chunks in
  \<open>handleSynthesis\<close>.
\<close>

fun validateTtsInput :: "jsvalue \<Rightarrow> jsstring option" where
  "validateTtsInput (JString text) =
     (if text = [] then Some required_message
      else if length (trim text) = 0 then Some empty_message
      else None)"
| "validateTtsInput v = Some required_message"

definition formatErrorResponse :: "js_error \<Rightarrow> nat \<Rightarrow> jsstring option \<Rightarrow> response" where
  "formatErrorResponse error statusCode code =
     Response_json
       (JObject [(js ''error'', JObject
          [(js ''type'', JString (if statusCode = 400 then js ''ValidationError''
                                  else js ''SynthesisError'')),
           (js ''code'', JString
              (case code of
                 Some c \<Rightarrow> if c \<noteq> [] then c
                           else if statusCode = 400 then js ''INVALID_INPUT''
                           else js ''SYNTHESIS_FAILED''
               | None \<Rightarrow> if statusCode = 400 then js ''INVALID_INPUT''
                         else js ''SYNTHESIS_FAILED'')),
           (js ''message'', JString
              (if message error \<noteq> [] then message error
               else js ''An error occurred during synthesis'')),
           (js ''details'', JObject [(js ''originalError'', JString (error_toString error))])])])
       statusCode getCorsHeaders"

section \<open>Session route handlers\<close>

definition not_built_message :: jsstring where
  "not_built_message = js ''Frontend not built. Run make build first.''"

definition nonce_meta_tag :: "jsstring \<Rightarrow> jsstring" where
  "nonce_meta_tag nonce =
     js ''<meta name=\"session-nonce\" content=\"'' @ nonce @ js ''\">'' @ [0x000A] @ js ''</head>''"

text \<open>
  \<open>handleServeIndex\<close>: \<open>!indexHtmlTemplate\<close> holds when no template was read and
  when the template is the empty string.
\<close>

definition handleServeIndex :: "config \<Rightarrow> runtime \<Rightarrow> nonce_store \<Rightarrow> response \<times> nonce_store" where
  "handleServeIndex cfg rt sessionNonces =
     (case indexHtmlTemplate cfg of
        None \<Rightarrow> (Response (Text not_built_message) 404 [], sessionNonces)
      | Some template \<Rightarrow>
          if template = [] then (Response (Text not_built_message) 404 [], sessionNonces)
          else
            let swept = sweepExpired (date_now rt) sessionNonces;
                nonce = generateNonce (random_values rt);
                stored = swept(nonce \<mapsto> date_now_later rt + NONCE_TTL_MS);
                html = replaceFirst template (js ''</head>'') (nonce_meta_tag nonce)
            in (Response (Text html) 200 ((js ''Content-Type'', js ''text/html'') # getCorsHeaders),
                stored))"

definition authError :: "jsstring \<Rightarrow> jsstring \<Rightarrow> nat \<Rightarrow> response" where
  "authError code msg st =
     Response_json
       (JObject [(js ''error'', JObject
          [(js ''type'', JString (js ''AuthenticationError'')),
           (js ''code'', JString code),
           (js ''message'', JString msg)])])
       st getCorsHeaders"

definition invalid_nonce_response :: response where
  "invalid_nonce_response =
     authError (js ''INVALID_NONCE'')
       (js ''Valid session nonce required. Please refresh the page.'') 403"

definition token_response :: "jsstring \<Rightarrow> response" where
  "token_response token = Response_json (JObject [(js ''token'', JString token)]) 200 getCorsHeaders"

definition handleGetSession ::
  "config \<Rightarrow> world \<Rightarrow> runtime \<Rightarrow> request \<Rightarrow> nonce_store \<Rightarrow> response \<times> nonce_store" where
  "handleGetSession cfg w rt req sessionNonces =
     (if REQUIRE_NONCE cfg then
        (case header_get req (js ''X-Session-Nonce'') of
           None \<Rightarrow> (invalid_nonce_response, sessionNonces)
         | Some nonce \<Rightarrow>
             if nonce = [] then (invalid_nonce_response, sessionNonces)
             else
               (case consumeNonce nonce (date_now rt) sessionNonces of
                  (consumed, store') \<Rightarrow>
                    if \<not> consumed then (invalid_nonce_response, store')
                    else (token_response (createSessionToken cfg w (date_now_later rt)),
                          store')))
      else (token_response (createSessionToken cfg w (date_now rt)), sessionNonces))"

text \<open>
  \<open>checkAuth\<close> returns the error response, or \<open>None\<close> when the token verifies.
  \<open>verifySessionToken\<close> has no throwing path; the model answers the \<open>Inl\<close> case,
  which never arises, like a token that does not verify.
\<close>

definition checkAuth :: "config \<Rightarrow> world \<Rightarrow> request \<Rightarrow> response option" where
  "checkAuth cfg w req =
     (let authHeader = (case header_get req (js ''Authorization'') of
                          Some h \<Rightarrow> h | None \<Rightarrow> [])
      in if \<not> startsWith authHeader (js ''Bearer '') then
           Some (authError (js ''MISSING_TOKEN'')
                   (js ''Authorization header with Bearer token is required'') 401)
         else
           (case verifySessionToken cfg w (drop 7 authHeader) of
              Inr verified \<Rightarrow>
                if \<not> verified
                then Some (authError (js ''INVALID_TOKEN'')
                             (js ''Invalid or expired session token'') 401)
                else None
            | Inl err \<Rightarrow> Some (authError (js ''INVALID_TOKEN'')
                                 (js ''Invalid or expired session token'') 401)))"

section \<open>Synthesis handler\<close>

text \<open>The read loop: \<open>chunks.push(value)\<close> until \<open>done\<close>; a rejected read throws.\<close>

fun readChunks :: "audio_stream \<Rightarrow> byte list list \<Rightarrow> js_error + byte list list" where
  "readChunks [] chunks = Inr chunks"
| "readChunks (Inl err # rest) chunks = Inl err"
| "readChunks (Inr value # rest) chunks = readChunks rest (chunks @ [value])"

text \<open>\<open>chunks.reduce((acc, chunk) => acc + chunk.length, 0)\<close>.\<close>

definition totalLength :: "byte list list \<Rightarrow> nat" where
  "totalLength chunks = foldl (\<lambda>acc chunk. acc + length chunk) 0 chunks"

text \<open>
  \<open>target.set(source, offset)\<close> of a typed array: a RangeError when the source does
  not fit, otherwise the source overwrites the target from \<open>offset\<close>.
\<close>

definition typedArray_set :: "byte list \<Rightarrow> byte list \<Rightarrow> nat \<Rightarrow> js_error + byte list" where
  "typedArray_set target source offset =
     (if offset + length source > length target then Inl (RangeError (js ''offset is out of bounds''))
      else Inr (take offset target @ source @ drop (offset + length source) target))"

fun copyChunks :: "byte list list \<Rightarrow> byte list \<Rightarrow> nat \<Rightarrow> js_error + byte list" where
  "copyChunks [] audioData offset = Inr audioData"
| "copyChunks (chunk # rest) audioData offset =
     (case typedArray_set audioData chunk offset of
        Inl err \<Rightarrow> Inl err
      | Inr audioData' \<Rightarrow> copyChunks rest audioData' (offset + length chunk))"

definition concatenateChunks :: "byte list list \<Rightarrow> js_error + byte list" where
  "concatenateChunks chunks = copyChunks chunks (replicate (totalLength chunks) 0) 0"

definition audio_response :: "byte list \<Rightarrow> response" where
  "audio_response audioData =
     Response (Bytes audioData) 200
       ((js ''content-type'', js ''application/octet-stream'') # getCorsHeaders)"

definition no_stream_message :: jsstring where
  "no_stream_message = js ''No audio stream returned from Deepgram''"

text \<open>\<open>url.searchParams.get("model") || DEFAULT_MODEL\<close>.\<close>

definition requestedModel :: "request \<Rightarrow> jsstring" where
  "requestedModel req =
     (case model_param req of
        Some m \<Rightarrow> if m \<noteq> [] then m else DEFAULT_MODEL
      | None \<Rightarrow> DEFAULT_MODEL)"

text \<open>The body of the \<open>try\<close> block: \<open>Inl\<close> is the value thrown.\<close>

definition synthesis_try :: "world \<Rightarrow> request \<Rightarrow> js_error + response" where
  "synthesis_try w req =
     (case json_body req of
        Inl err \<Rightarrow> Inl err
      | Inr parsed \<Rightarrow>
          (case getProperty parsed (js ''text'') of
             Inl err \<Rightarrow> Inl err
           | Inr text \<Rightarrow>
               let model = requestedModel req
               in (case validateTtsInput text of
                     Some validationError \<Rightarrow>
                       Inr (formatErrorResponse (Error validationError) 400
                              (Some (js ''INVALID_INPUT'')))
                   | None \<Rightarrow>
                       (case speak_request w text model of
                          SpeakRejected err \<Rightarrow> Inl err
                        | NoStream \<Rightarrow> Inl (Error no_stream_message)
                        | Stream reader \<Rightarrow>
                            (case readChunks reader [] of
                               Inl err \<Rightarrow> Inl err
                             | Inr chunks \<Rightarrow>
                                 (case concatenateChunks chunks of
                                    Inl err \<Rightarrow> Inl err
                                  | Inr audioData \<Rightarrow> Inr (audio_response audioData)))))))"

text \<open>The test of the \<open>catch\<close> block on the lower-cased message.\<close>

definition isTextLengthError :: "js_error \<Rightarrow> bool" where
  "isTextLengthError error =
     (let errorMsg = toLowerCase (message error)
      in includesStr errorMsg (js ''too long'') \<or> includesStr errorMsg (js ''length'') \<or>
         includesStr errorMsg (js ''limit'') \<or> includesStr errorMsg (js ''exceed''))"

definition synthesis_catch :: "js_error \<Rightarrow> response" where
  "synthesis_catch error =
     (if isTextLengthError error then formatErrorResponse error 400 (Some (js ''TEXT_TOO_LONG''))
      else formatErrorResponse error 500 None)"

definition handleSynthesis :: "world \<Rightarrow> request \<Rightarrow> response" where
  "handleSynthesis w req =
     (case synthesis_try w req of
        Inr resp \<Rightarrow> resp
      | Inl err \<Rightarrow> synthesis_catch err)"

section \<open>Metadata, preflight and the router\<close>

definition metadata_error :: "jsstring \<Rightarrow> response" where
  "metadata_error msg =
     Response_json
       (JObject [(js ''error'', JString (js ''INTERNAL_SERVER_ERROR'')),
                 (js ''message'', JString msg)])
       500 getCorsHeaders"

definition handleMetadata :: "world \<Rightarrow> response" where
  "handleMetadata w =
     (case metadata_toml w of
        Inl err \<Rightarrow> metadata_error (js ''Failed to read metadata from deepgram.toml'')
      | Inr parsed \<Rightarrow>
          (case getProperty parsed (js ''meta'') of
             Inl err \<Rightarrow> metadata_error (js ''Failed to read metadata from deepgram.toml'')
           | Inr meta \<Rightarrow>
               if \<not> truthy meta
               then metadata_error (js ''Missing [meta] section in deepgram.toml'')
               else Response_json meta 200 getCorsHeaders))"

definition handlePreflight :: response where
  "handlePreflight = Response NoBody 204 getCorsHeaders"

definition not_found_response :: response where
  "not_found_response =
     Response_json
       (JObject [(js ''error'', JString (js ''Not Found'')),
                 (js ''message'', JString (js ''Endpoint not found''))])
       404 getCorsHeaders"

definition handleRequest ::
  "config \<Rightarrow> world \<Rightarrow> runtime \<Rightarrow> request \<Rightarrow> nonce_store \<Rightarrow> response \<times> nonce_store" where
  "handleRequest cfg w rt req sessionNonces =
     (if req_method req = js ''OPTIONS'' then (handlePreflight, sessionNonces)
      else if pathname req = js ''/'' \<or> pathname req = js ''/index.html''
        then handleServeIndex cfg rt sessionNonces
      else if req_method req = js ''GET'' \<and> pathname req = js ''/api/session''
        then handleGetSession cfg w rt req sessionNonces
      else if req_method req = js ''POST'' \<and> pathname req = js ''/api/text-to-speech''
        then (case checkAuth cfg w req of
                Some authErr \<Rightarrow> (authErr, sessionNonces)
              | None \<Rightarrow> (handleSynthesis w req, sessionNonces))
      else if req_method req = js ''GET'' \<and> pathname req = js ''/api/metadata''
        then (handleMetadata w, sessionNonces)
      else (not_found_response, sessionNonces))"

section \<open>The server as a transition system on the nonce store\<close>

text \<open>
  The nonce store changes in two ways only: a request is handled, or the 60 second
  interval fires.
\<close>

datatype event = Request request runtime | Tick int

fun step :: "config \<Rightarrow> world \<Rightarrow> event \<Rightarrow> nonce_store \<Rightarrow> nonce_store" where
  "step cfg w (Request req rt) sessionNonces = snd (handleRequest cfg w rt req sessionNonces)"
| "step cfg w (Tick now) sessionNonces = sweepExpired now sessionNonces"

definition run :: "config \<Rightarrow> world \<Rightarrow> event list \<Rightarrow> nonce_store \<Rightarrow> nonce_store" where
  "run cfg w evs sessionNonces = foldl (\<lambda>s ev. step cfg w ev s) sessionNonces evs"

text \<open>The index template was read at startup and is not empty.\<close>

definition frontendBuilt :: "config \<Rightarrow> bool" where
  "frontendBuilt cfg = (case indexHtmlTemplate cfg of Some t \<Rightarrow> t \<noteq> [] | None \<Rightarrow> False)"

definition isIndexRequest :: "request \<Rightarrow> bool" where
  "isIndexRequest req =
     (req_method req \<noteq> js ''OPTIONS'' \<and> (pathname req = js ''/'' \<or> pathname req = js ''/index.html''))"

text \<open>An event generates the nonce \<open>n\<close> again: an index page is rendered with it.\<close>

fun regenerates :: "config \<Rightarrow> jsstring \<Rightarrow> event \<Rightarrow> bool" where
  "regenerates cfg n (Request req rt) =
     (isIndexRequest req \<and> frontendBuilt cfg \<and> generateNonce (random_values rt) = n)"
| "regenerates cfg n (Tick now) = False"

text \<open>
  The states of the nonce store the server can be in: it starts empty, and every event
  happens at clock readings that are not before the epoch.
\<close>

inductive reachable :: "config \<Rightarrow> world \<Rightarrow> nonce_store \<Rightarrow> bool" for cfg :: config and w :: world where
  start: "reachable cfg w Map.empty"
| request: "reachable cfg w s \<Longrightarrow> 0 \<le> date_now rt \<Longrightarrow> 0 \<le> date_now_later rt \<Longrightarrow>
            reachable cfg w (snd (handleRequest cfg w rt req s))"
| tick: "reachable cfg w s \<Longrightarrow> reachable cfg w (sweepExpired now s)"

section \<open>Reading responses\<close>

text \<open>The field \<open>k\<close> of the \<open>error\<close> object of a JSON error response.\<close>

definition error_field :: "response \<Rightarrow> jsstring \<Rightarrow> jsvalue option" where
  "error_field r k =
     (case body r of
        Json (JObject kvs) \<Rightarrow>
          (case map_of kvs (js ''error'') of
             Some (JObject members) \<Rightarrow> map_of members k
           | _ \<Rightarrow> None)
      | _ \<Rightarrow> None)"

definition carriesCorsHeaders :: "response \<Rightarrow> bool" where
  "carriesCorsHeaders r = (set getCorsHeaders \<subseteq> set (headers r))"

text \<open>
  The request presents, in \<open>X-Session-Nonce\<close>, a nonce that is in the store (generated,
  neither consumed nor swept) and whose expiry is still ahead.
\<close>

definition presentsValidNonce :: "request \<Rightarrow> int \<Rightarrow> nonce_store \<Rightarrow> bool" where
  "presentsValidNonce req now sessionNonces =
     (case header_get req (js ''X-Session-Nonce'') of
        None \<Rightarrow> False
      | Some nonce \<Rightarrow>
          (case sessionNonces nonce of None \<Rightarrow> False | Some expiry \<Rightarrow> now < expiry))"

section \<open>Sample inputs\<close>

definition sample_config :: config where
  "sample_config =
     \<lparr>session_secret_env = Some (js ''s3cret''), random_secret = js ''0f0e0d'',
      indexHtmlTemplate = Some (js ''<html><head></head><body></body></html>'')\<rparr>"

definition dev_config :: config where
  "dev_config =
     \<lparr>session_secret_env = None, random_secret = js ''0f0e0d'', indexHtmlTemplate = None\<rparr>"

definition sample_stream :: audio_stream where
  "sample_stream = [Inr [1, 2], Inr [], Inr [3]]"

definition sample_world :: world where
  "sample_world =
     \<lparr>jose_sign = (\<lambda>key iat. js ''header.payload.signature''),
      jose_jwtVerify = (\<lambda>token key.
         if token = js ''header.payload.signature'' then Inr \<lparr>iat = 1, exp = 3601\<rparr>
         else Inl JWSInvalid),
      speak_request = (\<lambda>text model. Stream sample_stream),
      metadata_toml = Inr (JObject [(js ''meta'', JObject [(js ''title'', JString (js ''TTS''))])])\<rparr>"

definition silent_world :: world where
  "silent_world = sample_world\<lparr>speak_request := (\<lambda>text model. NoStream)\<rparr>"

definition rejecting_world :: world where
  "rejecting_world =
     sample_world\<lparr>speak_request := (\<lambda>text model. SpeakRejected (Error (js ''Text is too long'')))\<rparr>"

definition sample_runtime :: runtime where
  "sample_runtime = \<lparr>date_now = 1000, date_now_later = 1001, random_values = (\<lambda>i. of_nat i)\<rparr>"

definition sample_nonce :: jsstring where
  "sample_nonce = js ''000102030405060708090a0b0c0d0e0f''"

definition sample_request :: "jsstring \<Rightarrow> jsstring \<Rightarrow> request" where
  "sample_request m p =
     \<lparr>req_method = m, pathname = p, model_param = None,
      header_get = (\<lambda>h. if h = js ''X-Session-Nonce'' then Some sample_nonce
                         else if h = js ''Authorization''
                         then Some (js ''Bearer header.payload.signature'') else None),
      json_body = Inr (JObject [(js ''text'', JString (js ''hello''))])\<rparr>"

text \<open>The store after one index page was served, and two later events.\<close>

definition sample_store :: nonce_store where
  "sample_store =
     snd (handleRequest sample_config sample_world sample_runtime
            (sample_request (js ''GET'') (js ''/'')) Map.empty)"

definition sample_events :: "event list" where
  "sample_events =
     [Tick 5000, Request (sample_request (js ''GET'') (js ''/api/session'')) sample_runtime]"

section \<open>Input validation\<close>

lemma dropWhile_all: "(\<forall>x\<in>set (dropWhile P xs). P x) \<longleftrightarrow> (\<forall>x\<in>set xs. P x)"
  by (induction xs) auto

lemma trim_Nil_iff: "trim s = [] \<longleftrightarrow> (\<forall>c\<in>set s. isWhiteSpace c)"
  by (simp add: trim_def dropWhile_eq_Nil_conv dropWhile_all)

text \<open>
  C1, as the code has it. A string that is not empty after trimming passes validation. A
  string that is not empty and consists of whitespace only fails with
  "text cannot be empty". The empty string is caught by the first guard of
  \<open>validateTtsInput\<close> and fails with
  "text field is required and must be a string".
\<close>

theorem validateTtsInput_cases:
  "(trim t \<noteq> [] \<longrightarrow> validateTtsInput (JString t) = None) \<and>
   (t \<noteq> [] \<and> (\<forall>c\<in>set t. isWhiteSpace c) \<longrightarrow>
      validateTtsInput (JString t) = Some empty_message) \<and>
   (t = [] \<longrightarrow> validateTtsInput (JString t) = Some required_message)"
  using trim_Nil_iff [of t] by (auto simp: trim_def)

theorem validateTtsInput_cases_witness:
  "trim (js '' hi '') \<noteq> [] \<and> validateTtsInput (JString (js '' hi '')) = None \<and>
   validateTtsInput (JString (js ''  '')) = Some (js ''text cannot be empty'') \<and>
   validateTtsInput (JString []) = Some (js ''text field is required and must be a string'')"
  using validateTtsInput_cases [of "js '' hi ''"] validateTtsInput_cases [of "js ''  ''"]
    validateTtsInput_cases [of "[]"]
  by (simp add: trim_def js_def isWhiteSpace_def empty_message_def required_message_def)

text \<open>
  C1 as stated fails at the empty string: the message is not "text cannot be empty".
\<close>

theorem validateTtsInput_empty_string_counterexample:
  "\<not> (validateTtsInput (JString []) = Some (js ''text cannot be empty''))"
  by (simp add: required_message_def js_def)

section \<open>Synthesis\<close>

lemma readChunks_delivered: "readChunks (map Inr cs) acc = Inr (acc @ cs)"
  by (induction cs arbitrary: acc) auto

lemma foldl_length: "foldl (\<lambda>acc chunk. acc + length chunk) k cs = k + length (concat cs)"
  by (induction cs arbitrary: k) auto

lemma totalLength_concat: "totalLength cs = length (concat cs)"
  by (simp add: totalLength_def foldl_length)

lemma copyChunks_fits:
  "offset + length (concat cs) \<le> length a \<Longrightarrow>
   copyChunks cs a offset = Inr (take offset a @ concat cs @ drop (offset + length (concat cs)) a)"
proof (induction cs arbitrary: a offset)
  case Nil
  then show ?case by simp
next
  case (Cons c cs)
  let ?a' = "take offset a @ c @ drop (offset + length c) a"
  from Cons.prems have fit: "offset + length c \<le> length a" by simp
  then have set: "typedArray_set a c offset = Inr ?a'"
    by (simp add: typedArray_set_def)
  from Cons.prems have "(offset + length c) + length (concat cs) \<le> length ?a'"
    by simp
  from Cons.IH [OF this] have
    "copyChunks cs ?a' (offset + length c) =
       Inr (take (offset + length c) ?a' @ concat cs @
            drop (offset + length c + length (concat cs)) ?a')" .
  moreover from fit have "take (offset + length c) ?a' = take offset a @ c"
    by simp
  moreover from Cons.prems have
    "drop (offset + length c + length (concat cs)) ?a' =
     drop (offset + length (concat (c # cs))) a"
    by (simp add: ac_simps)
  ultimately show ?case using set by simp
qed

lemma concatenateChunks_concat: "concatenateChunks cs = Inr (concat cs)"
  using copyChunks_fits [of 0 cs "replicate (totalLength cs) 0"]
  by (simp add: concatenateChunks_def totalLength_concat)

lemma synthesis_try_stream:
  assumes "json_body req = Inr parsed"
    and "getProperty parsed (js ''text'') = Inr text"
    and "validateTtsInput text = None"
    and "speak_request w text (requestedModel req) = Stream (map Inr chunks)"
  shows "synthesis_try w req = Inr (audio_response (concat chunks))"
  using assms
  by (simp add: synthesis_try_def readChunks_delivered concatenateChunks_concat)

text \<open>
  C7. When the request is valid and the provider's stream delivers the chunks
  \<open>chunks\<close> in this order and then reports \<open>done\<close>, the handler answers 200 with a
  body that is exactly the concatenation of the chunks in delivery order, whose length
  is the sum of the chunk lengths, under the content type application/octet-stream.
\<close>

theorem handleSynthesis_concatenates:
  assumes "json_body req = Inr parsed"
    and "getProperty parsed (js ''text'') = Inr text"
    and "validateTtsInput text = None"
    and "speak_request w text (requestedModel req) = Stream (map Inr chunks)"
  shows "status (handleSynthesis w req) = 200 \<and>
         body (handleSynthesis w req) = Bytes (concat chunks) \<and>
         length (concat chunks) = sum_list (map length chunks) \<and>
         map_of (headers (handleSynthesis w req)) (js ''content-type'') =
           Some (js ''application/octet-stream'')"
  using synthesis_try_stream [OF assms]
  by (simp add: handleSynthesis_def audio_response_def Response_def length_concat)

lemma sample_text:
  "getProperty (JObject [(js ''text'', JString (js ''hello''))]) (js ''text'') =
     Inr (JString (js ''hello''))"
  by simp

lemma validate_hello: "validateTtsInput (JString (js ''hello'')) = None"
  by (simp add: js_def trim_def isWhiteSpace_def)

theorem handleSynthesis_concatenates_witness:
  "body (handleSynthesis sample_world (sample_request (js ''POST'') (js ''/api/text-to-speech'')))
     = Bytes [1, 2, 3] \<and>
   status (handleSynthesis sample_world (sample_request (js ''POST'') (js ''/api/text-to-speech'')))
     = 200 \<and>
   map_of (headers (handleSynthesis sample_world
       (sample_request (js ''POST'') (js ''/api/text-to-speech'')))) (js ''content-type'') =
     Some (js ''application/octet-stream'')"
proof -
  let ?req = "sample_request (js ''POST'') (js ''/api/text-to-speech'')"
  have 1: "json_body ?req = Inr (JObject [(js ''text'', JString (js ''hello''))])"
    by (simp add: sample_request_def)
  have 4: "speak_request sample_world (JString (js ''hello'')) (requestedModel ?req)
             = Stream (map Inr [[1, 2], [], [3]])"
    by (simp add: sample_world_def sample_stream_def)
  show ?thesis
    using handleSynthesis_concatenates [OF 1 sample_text validate_hello 4] by simp
qed

lemma formatErrorResponse_status: "status (formatErrorResponse e st c) = st"
  by (simp add: formatErrorResponse_def Response_json_def)

lemma js_type_code: "js ''type'' \<noteq> js ''code''"
  by (simp add: js_def)

lemma formatErrorResponse_type:
  "error_field (formatErrorResponse e st c) (js ''type'') =
     Some (JString (if st = 400 then js ''ValidationError'' else js ''SynthesisError''))"
  by (simp add: formatErrorResponse_def Response_json_def error_field_def)

lemma formatErrorResponse_code:
  "error_field (formatErrorResponse e st c) (js ''code'') =
     Some (JString (case c of
                      Some c' \<Rightarrow> if c' \<noteq> [] then c'
                                 else if st = 400 then js ''INVALID_INPUT'' else js ''SYNTHESIS_FAILED''
                    | None \<Rightarrow> if st = 400 then js ''INVALID_INPUT'' else js ''SYNTHESIS_FAILED''))"
  using js_type_code
  by (simp add: formatErrorResponse_def Response_json_def error_field_def)

lemma text_too_long_nonempty: "js ''TEXT_TOO_LONG'' \<noteq> []"
  by (simp add: js_def)

text \<open>
  C2, as the code has it. When the synthesis throws an error whose lower-cased message
  contains "too long", "length", "limit" or "exceed", the handler answers 400 with the
  code \<open>TEXT_TOO_LONG\<close>. \<open>formatErrorResponse\<close> derives the type from the status, so
  the type of this 400 response is \<open>ValidationError\<close>.
\<close>

theorem handleSynthesis_text_too_long:
  assumes "synthesis_try w req = Inl err"
    and "needle \<in> {js ''too long'', js ''length'', js ''limit'', js ''exceed''}"
    and "includesStr (toLowerCase (message err)) needle"
  shows "status (handleSynthesis w req) = 400 \<and>
         error_field (handleSynthesis w req) (js ''type'') = Some (JString (js ''ValidationError'')) \<and>
         error_field (handleSynthesis w req) (js ''code'') = Some (JString (js ''TEXT_TOO_LONG''))"
proof -
  from assms(2,3) have "isTextLengthError err"
    by (auto simp: isTextLengthError_def)
  with assms(1) have "handleSynthesis w req = formatErrorResponse err 400 (Some (js ''TEXT_TOO_LONG''))"
    by (simp add: handleSynthesis_def synthesis_catch_def)
  then show ?thesis
    using text_too_long_nonempty
    by (simp add: formatErrorResponse_status formatErrorResponse_type formatErrorResponse_code)
qed

lemma rejecting_try:
  "synthesis_try rejecting_world (sample_request (js ''POST'') (js ''/api/text-to-speech''))
     = Inl (Error (js ''Text is too long''))"
  using validate_hello
  by (simp add: synthesis_try_def sample_request_def rejecting_world_def sample_world_def)

lemma too_long_matches:
  "includesStr (toLowerCase (message (Error (js ''Text is too long'')))) (js ''too long'')"
  by (simp add: Error_def js_def toLowerCase_def)

theorem handleSynthesis_text_too_long_witness:
  "status (handleSynthesis rejecting_world (sample_request (js ''POST'') (js ''/api/text-to-speech''))) = 400 \<and>
   error_field (handleSynthesis rejecting_world (sample_request (js ''POST'') (js ''/api/text-to-speech'')))
     (js ''code'') = Some (JString (js ''TEXT_TOO_LONG''))"
  using handleSynthesis_text_too_long [OF rejecting_try _ too_long_matches]
  by simp

text \<open>
  C2 as stated fails: for the provider error "Text is too long" the type of the error
  JSON is not \<open>SynthesisError\<close>.
\<close>

theorem handleSynthesis_text_too_long_type_counterexample:
  "includesStr (toLowerCase (message (Error (js ''Text is too long'')))) (js ''too long'') \<and>
   synthesis_try rejecting_world (sample_request (js ''POST'') (js ''/api/text-to-speech''))
     = Inl (Error (js ''Text is too long'')) \<and>
   \<not> (error_field (handleSynthesis rejecting_world
          (sample_request (js ''POST'') (js ''/api/text-to-speech''))) (js ''type'')
        = Some (JString (js ''SynthesisError'')))"
proof -
  have "isTextLengthError (Error (js ''Text is too long''))"
    using too_long_matches by (simp add: isTextLengthError_def)
  then have "handleSynthesis rejecting_world (sample_request (js ''POST'') (js ''/api/text-to-speech''))
      = formatErrorResponse (Error (js ''Text is too long'')) 400 (Some (js ''TEXT_TOO_LONG''))"
    by (simp add: handleSynthesis_def synthesis_catch_def rejecting_try)
  moreover have "js ''ValidationError'' \<noteq> js ''SynthesisError''"
    by (simp add: js_def)
  ultimately show ?thesis
    using too_long_matches rejecting_try by (simp add: formatErrorResponse_type)
qed

lemma no_stream_not_length_error: "\<not> isTextLengthError (Error no_stream_message)"
  by (simp add: isTextLengthError_def Error_def no_stream_message_def js_def toLowerCase_def)

text \<open>
  C8. When the request is valid and the provider returns no stream, the handler answers
  500 with type \<open>SynthesisError\<close> and code \<open>SYNTHESIS_FAILED\<close>: the message
  "No audio stream returned from Deepgram" contains none of the text length words.
\<close>

theorem handleSynthesis_no_stream:
  assumes "json_body req = Inr parsed"
    and "getProperty parsed (js ''text'') = Inr text"
    and "validateTtsInput text = None"
    and "speak_request w text (requestedModel req) = NoStream"
  shows "status (handleSynthesis w req) = 500 \<and>
         error_field (handleSynthesis w req) (js ''type'') = Some (JString (js ''SynthesisError'')) \<and>
         error_field (handleSynthesis w req) (js ''code'') = Some (JString (js ''SYNTHESIS_FAILED''))"
proof -
  from assms have "synthesis_try w req = Inl (Error no_stream_message)"
    by (simp add: synthesis_try_def)
  then have "handleSynthesis w req = formatErrorResponse (Error no_stream_message) 500 None"
    using no_stream_not_length_error by (simp add: handleSynthesis_def synthesis_catch_def)
  then show ?thesis
    by (simp add: formatErrorResponse_status formatErrorResponse_type formatErrorResponse_code)
qed

theorem handleSynthesis_no_stream_witness:
  "status (handleSynthesis silent_world (sample_request (js ''POST'') (js ''/api/text-to-speech''))) = 500 \<and>
   error_field (handleSynthesis silent_world (sample_request (js ''POST'') (js ''/api/text-to-speech'')))
     (js ''type'') = Some (JString (js ''SynthesisError'')) \<and>
   error_field (handleSynthesis silent_world (sample_request (js ''POST'') (js ''/api/text-to-speech'')))
     (js ''code'') = Some (JString (js ''SYNTHESIS_FAILED''))"
proof -
  let ?req = "sample_request (js ''POST'') (js ''/api/text-to-speech'')"
  have 1: "json_body ?req = Inr (JObject [(js ''text'', JString (js ''hello''))])"
    by (simp add: sample_request_def)
  have 4: "speak_request silent_world (JString (js ''hello'')) (requestedModel ?req) = NoStream"
    by (simp add: silent_world_def)
  show ?thesis
    using handleSynthesis_no_stream [OF 1 sample_text validate_hello 4] by simp
qed

section \<open>Session tokens: verification\<close>

text \<open>
  C5. For every token string \<open>verifySessionToken\<close> returns a boolean and throws
  nothing: it is \<open>false\<close> whenever \<open>jwtVerify\<close> rejects (malformed token, bad
  signature, expired token, any other failure) and \<open>true\<close> when \<open>jwtVerify\<close>
  accepts.
\<close>

theorem verifySessionToken_total:
  "(\<exists>b. verifySessionToken cfg w token = Inr b) \<and>
   (\<forall>e. jose_jwtVerify w token (SESSION_SECRET cfg) = Inl e \<longrightarrow>
        verifySessionToken cfg w token = Inr False) \<and>
   (\<forall>p. jose_jwtVerify w token (SESSION_SECRET cfg) = Inr p \<longrightarrow>
        verifySessionToken cfg w token = Inr True)"
  by (auto simp: verifySessionToken_def split: sum.splits)

theorem verifySessionToken_total_witness:
  "verifySessionToken sample_config sample_world (js ''header.payload.signature'') = Inr True \<and>
   verifySessionToken sample_config sample_world (js ''garbage'') = Inr False"
proof -
  have ok: "jose_jwtVerify sample_world (js ''header.payload.signature'') (SESSION_SECRET sample_config)
          = Inr \<lparr>iat = 1, exp = 3601\<rparr>"
    by (simp add: sample_world_def)
  have bad: "jose_jwtVerify sample_world (js ''garbage'') (SESSION_SECRET sample_config)
          = Inl JWSInvalid"
    by (simp add: sample_world_def js_def)
  show ?thesis
    using verifySessionToken_total [of sample_config sample_world "js ''header.payload.signature''"]
      verifySessionToken_total [of sample_config sample_world "js ''garbage''"] ok bad
    by simp
qed

section \<open>Nonce store: consumption\<close>

lemma length_padStart2_toString16: "length (padStart2 (toString16 b)) = 2"
  by (simp add: padStart2_def toString16_def)

lemma length_generateNonce: "length (generateNonce a) = 32"
  by (simp add: generateNonce_def length_concat comp_def length_padStart2_toString16 sum_list_triv)

lemma generateNonce_nonempty: "generateNonce a \<noteq> []"
  using length_generateNonce [of a] by auto

lemma sweepExpired_entry: "sweepExpired now s n = Some e \<Longrightarrow> s n = Some e"
  by (auto simp: sweepExpired_def split: option.splits if_splits)

lemma consumeNonce_entry:
  "consumeNonce k now s = (b, s') \<Longrightarrow> s' n = Some e \<Longrightarrow> s n = Some e"
  by (auto simp: consumeNonce_def split: option.splits if_splits)

lemma handleServeIndex_entry:
  "snd (handleServeIndex cfg rt s) n = Some e \<Longrightarrow>
   s n = Some e \<or> (n = generateNonce (random_values rt) \<and> e = date_now_later rt + NONCE_TTL_MS)"
  by (auto simp: handleServeIndex_def Let_def split: option.splits if_splits dest: sweepExpired_entry)

lemma handleGetSession_entry:
  "snd (handleGetSession cfg w rt req s) n = Some e \<Longrightarrow> s n = Some e"
  by (auto simp: handleGetSession_def split: option.splits if_splits prod.splits
      dest: consumeNonce_entry)

lemma handleRequest_entry:
  "snd (handleRequest cfg w rt req s) n = Some e \<Longrightarrow>
   s n = Some e \<or> (n = generateNonce (random_values rt) \<and> e = date_now_later rt + NONCE_TTL_MS)"
  by (auto simp: handleRequest_def split: if_splits option.splits
      dest: handleServeIndex_entry handleGetSession_entry)

lemma reachable_entry:
  "reachable cfg w s \<Longrightarrow> s n = Some e \<Longrightarrow> n \<noteq> [] \<and> 0 < e"
proof (induction arbitrary: n e rule: reachable.induct)
  case start
  then show ?case by simp
next
  case (request s rt req)
  from handleRequest_entry [OF request.prems]
  show ?case
  proof
    assume "s n = Some e"
    then show ?thesis by (rule request.IH)
  next
    assume "n = generateNonce (random_values rt) \<and> e = date_now_later rt + NONCE_TTL_MS"
    with request.hyps show ?thesis
      by (simp add: generateNonce_nonempty NONCE_TTL_MS_def)
  qed
next
  case (tick s now)
  from sweepExpired_entry [OF tick.prems] show ?case by (rule tick.IH)
qed

text \<open>
  What \<open>consumeNonce\<close> does on any store: the guard \<open>!expiry\<close> also takes a recorded
  expiry of 0 for a missing entry. No reachable store records 0 (\<open>reachable_entry\<close>).
\<close>

lemma consumeNonce_cases:
  "(s n = None \<longrightarrow> consumeNonce n now s = (False, s)) \<and>
   (s n = Some e \<and> e \<noteq> 0 \<longrightarrow> consumeNonce n now s = (now < e, s(n := None))) \<and>
   (s n = Some 0 \<longrightarrow> consumeNonce n now s = (False, s))"
  by (simp add: consumeNonce_def)

text \<open>
  C3. In every state of the nonce store that the server can reach, for every nonce:
  \<open>consumeNonce\<close> on a nonce absent from the store returns false and leaves the store
  as it is; on a present nonce it deletes the entry, also when the expiry has passed,
  and returns true if and only if the current time is strictly before the recorded
  expiry.
\<close>

theorem consumeNonce_spec:
  assumes "reachable cfg w s"
  shows "(s n = None \<longrightarrow> consumeNonce n now s = (False, s)) \<and>
         (\<forall>e. s n = Some e \<longrightarrow> consumeNonce n now s = (now < e, s(n := None)))"
  using reachable_entry [OF assms, of n]
  by (auto simp: consumeNonce_def)

lemma upt_16: "[0..<16] = [0, 1, 2, 3, 4, 5, 6, 7, 8, 9, 10, 11, 12, 13, 14, 15]"
  by (simp add: upt_rec)

lemma sample_nonce_generated: "generateNonce (random_values sample_runtime) = sample_nonce"
  by (simp add: generateNonce_def sample_runtime_def sample_nonce_def upt_16 padStart2_def
      toString16_def hexDigit_def js_def)

lemma sample_store_eq: "sample_store = Map.empty(sample_nonce \<mapsto> 301001)"
proof -
  have "js ''GET'' \<noteq> js ''OPTIONS''" by (simp add: js_def)
  then have "sample_store = snd (handleServeIndex sample_config sample_runtime Map.empty)"
    by (simp add: sample_store_def handleRequest_def sample_request_def)
  also have "\<dots> = (sweepExpired 1000 Map.empty)(sample_nonce \<mapsto> 301001)"
    using sample_nonce_generated
    by (simp add: handleServeIndex_def sample_config_def Let_def NONCE_TTL_MS_def js_def
        sample_runtime_def)
  also have "sweepExpired 1000 Map.empty = Map.empty"
    by (simp add: sweepExpired_def)
  finally show ?thesis .
qed

lemma sample_store_reachable: "reachable sample_config sample_world sample_store"
  unfolding sample_store_def
  by (rule reachable.request [OF reachable.start]) (simp_all add: sample_runtime_def)

theorem consumeNonce_spec_witness:
  "reachable sample_config sample_world sample_store \<and>
   sample_store sample_nonce = Some 301001 \<and>
   consumeNonce sample_nonce 2000 sample_store = (True, sample_store(sample_nonce := None)) \<and>
   consumeNonce sample_nonce 301001 sample_store = (False, sample_store(sample_nonce := None)) \<and>
   sample_store (js ''unknown'') = None \<and>
   consumeNonce (js ''unknown'') 2000 sample_store = (False, sample_store)"
proof -
  have a: "sample_store sample_nonce = Some 301001"
    by (simp add: sample_store_eq)
  have b: "sample_store (js ''unknown'') = None"
    by (simp add: sample_store_eq sample_nonce_def js_def)
  show ?thesis
    using consumeNonce_spec [OF sample_store_reachable, of sample_nonce 2000]
      consumeNonce_spec [OF sample_store_reachable, of sample_nonce 301001]
      consumeNonce_spec [OF sample_store_reachable, of "js ''unknown''" 2000]
      a b sample_store_reachable
    by simp
qed

section \<open>Nonce store: single use\<close>

lemma sweepExpired_keeps_or_drops: "sweepExpired now s n = None \<or> sweepExpired now s n = s n"
  by (auto simp: sweepExpired_def split: option.splits)

lemma consumeNonce_keeps_or_drops:
  "snd (consumeNonce k now s) n = None \<or> snd (consumeNonce k now s) n = s n"
  by (auto simp: consumeNonce_def split: option.splits)

lemma handleServeIndex_keeps_or_drops:
  "\<not> (frontendBuilt cfg \<and> generateNonce (random_values rt) = n) \<Longrightarrow>
   snd (handleServeIndex cfg rt s) n = None \<or> snd (handleServeIndex cfg rt s) n = s n"
  using sweepExpired_keeps_or_drops [of "date_now rt" s n]
  by (auto simp: handleServeIndex_def frontendBuilt_def Let_def split: option.splits)

lemma handleGetSession_keeps_or_drops:
  "snd (handleGetSession cfg w rt req s) n = None \<or> snd (handleGetSession cfg w rt req s) n = s n"
proof (cases "REQUIRE_NONCE cfg")
  case False
  then show ?thesis by (simp add: handleGetSession_def)
next
  case True
  show ?thesis
  proof (cases "header_get req (js ''X-Session-Nonce'')")
    case None
    with True show ?thesis by (simp add: handleGetSession_def)
  next
    case (Some k)
    have "snd (handleGetSession cfg w rt req s) = s \<or>
          snd (handleGetSession cfg w rt req s) = snd (consumeNonce k (date_now rt) s)"
      using True Some by (simp add: handleGetSession_def split: prod.splits)
    then show ?thesis
      using consumeNonce_keeps_or_drops [of k "date_now rt" s n] by auto
  qed
qed

lemma step_keeps_or_drops:
  "\<not> regenerates cfg n ev \<Longrightarrow> step cfg w ev s n = None \<or> step cfg w ev s n = s n"
proof (cases ev)
  case (Tick now)
  then show ?thesis using sweepExpired_keeps_or_drops [of now s n] by simp
next
  case (Request req rt)
  assume fresh: "\<not> regenerates cfg n ev"
  show ?thesis
  proof (cases "isIndexRequest req")
    case True
    with fresh Request have "\<not> (frontendBuilt cfg \<and> generateNonce (random_values rt) = n)"
      by simp
    from handleServeIndex_keeps_or_drops [OF this, of s] True Request
    show ?thesis by (auto simp: handleRequest_def isIndexRequest_def)
  next
    case False
    then have "snd (handleRequest cfg w rt req s) = s \<or>
               snd (handleRequest cfg w rt req s) = snd (handleGetSession cfg w rt req s)"
      by (auto simp: handleRequest_def isIndexRequest_def split: option.splits)
    then show ?thesis
      using handleGetSession_keeps_or_drops [of cfg w rt req s n] Request by auto
  qed
qed

lemma run_keeps_or_drops:
  "\<forall>ev\<in>set evs. \<not> regenerates cfg n ev \<Longrightarrow>
   run cfg w evs s n = None \<or> run cfg w evs s n = s n"
proof (induction evs arbitrary: s)
  case Nil
  then show ?case by (simp add: run_def)
next
  case (Cons ev evs)
  from Cons.prems have "\<not> regenerates cfg n ev" and rest: "\<forall>ev\<in>set evs. \<not> regenerates cfg n ev"
    by auto
  from step_keeps_or_drops [OF this(1), of w s]
  have first: "step cfg w ev s n = None \<or> step cfg w ev s n = s n" .
  from Cons.IH [OF rest, of "step cfg w ev s"]
  have "run cfg w evs (step cfg w ev s) n = None \<or>
        run cfg w evs (step cfg w ev s) n = step cfg w ev s n" .
  moreover have "run cfg w (ev # evs) s = run cfg w evs (step cfg w ev s)"
    by (simp add: run_def)
  ultimately show ?case using first by auto
qed

lemma consumeNonce_absent: "s n = None \<Longrightarrow> fst (consumeNonce n now s) = False"
  by (simp add: consumeNonce_def)

lemma consumeNonce_expired: "s n = Some e \<Longrightarrow> e \<le> now \<Longrightarrow> fst (consumeNonce n now s) = False"
  by (simp add: consumeNonce_def)

lemma consumeNonce_success_deletes: "fst (consumeNonce n now s) \<Longrightarrow> snd (consumeNonce n now s) n = None"
  by (auto simp: consumeNonce_def split: option.splits if_splits)

text \<open>
  C4. Let any sequence of requests and sweeps follow in which the nonce is not generated
  again. After a \<open>consumeNonce\<close> call on the nonce returned true, a later call with the
  same value returns false; and a nonce whose recorded expiry has passed at the time of
  a call is not validated by it.
\<close>

theorem nonce_never_validated_again:
  assumes "\<forall>ev\<in>set evs. \<not> regenerates cfg n ev"
  shows "(fst (consumeNonce n t0 s) \<longrightarrow>
            \<not> fst (consumeNonce n t' (run cfg w evs (snd (consumeNonce n t0 s))))) \<and>
         (s n = Some e \<and> e \<le> t' \<longrightarrow> \<not> fst (consumeNonce n t' (run cfg w evs s)))"
proof (intro conjI impI)
  assume "fst (consumeNonce n t0 s)"
  then have gone: "snd (consumeNonce n t0 s) n = None"
    by (rule consumeNonce_success_deletes)
  from run_keeps_or_drops [OF assms, of w "snd (consumeNonce n t0 s)"] gone
  have "run cfg w evs (snd (consumeNonce n t0 s)) n = None" by auto
  then show "\<not> fst (consumeNonce n t' (run cfg w evs (snd (consumeNonce n t0 s))))"
    by (simp add: consumeNonce_absent)
next
  assume expired: "s n = Some e \<and> e \<le> t'"
  from run_keeps_or_drops [OF assms, of w s]
  show "\<not> fst (consumeNonce n t' (run cfg w evs s))"
  proof
    assume "run cfg w evs s n = None"
    then show ?thesis by (simp add: consumeNonce_absent)
  next
    assume "run cfg w evs s n = s n"
    with expired show ?thesis by (simp add: consumeNonce_expired)
  qed
qed

lemma sample_events_fresh: "\<forall>ev\<in>set sample_events. \<not> regenerates sample_config sample_nonce ev"
  by (simp add: sample_events_def isIndexRequest_def sample_request_def js_def)

theorem nonce_never_validated_again_witness:
  "fst (consumeNonce sample_nonce 2000 sample_store) \<and>
   \<not> fst (consumeNonce sample_nonce 3000
          (run sample_config sample_world sample_events
             (snd (consumeNonce sample_nonce 2000 sample_store)))) \<and>
   sample_store sample_nonce = Some 301001 \<and>
   \<not> fst (consumeNonce sample_nonce 301001
          (run sample_config sample_world sample_events sample_store))"
proof -
  have a: "sample_store sample_nonce = Some 301001"
    by (simp add: sample_store_eq)
  then have b: "fst (consumeNonce sample_nonce 2000 sample_store)"
    by (simp add: consumeNonce_def)
  show ?thesis
    using nonce_never_validated_again [OF sample_events_fresh,
        of 2000 sample_store 3000 sample_world 301001]
      nonce_never_validated_again [OF sample_events_fresh,
        of 2000 sample_store 301001 sample_world 301001] a b
    by simp
qed

section \<open>Session issuance\<close>

lemma get_session_route:
  assumes "req_method req = js ''GET''" and "pathname req = js ''/api/session''"
  shows "handleRequest cfg w rt req s = handleGetSession cfg w rt req s"
proof -
  have "js ''GET'' \<noteq> js ''OPTIONS''" "js ''/api/session'' \<noteq> js ''/''"
    "js ''/api/session'' \<noteq> js ''/index.html''"
    by (simp_all add: js_def)
  with assms show ?thesis by (simp add: handleRequest_def)
qed

lemma invalid_nonce_response_status: "status invalid_nonce_response = 403"
  by (simp add: invalid_nonce_response_def authError_def Response_json_def)

lemma invalid_nonce_response_type:
  "error_field invalid_nonce_response (js ''type'') = Some (JString (js ''AuthenticationError''))"
  by (simp add: invalid_nonce_response_def authError_def Response_json_def error_field_def)

lemma token_response_status: "status (token_response token) = 200"
  by (simp add: token_response_def Response_json_def)

lemma token_response_body: "body (token_response token) = Json (JObject [(js ''token'', JString token)])"
  by (simp add: token_response_def Response_json_def)

lemma handleGetSession_invalid:
  assumes "REQUIRE_NONCE cfg" and "\<not> presentsValidNonce req (date_now rt) s"
  shows "fst (handleGetSession cfg w rt req s) = invalid_nonce_response"
proof (cases "header_get req (js ''X-Session-Nonce'')")
  case None
  with assms(1) show ?thesis by (simp add: handleGetSession_def)
next
  case (Some n)
  with assms(2) have "\<not> fst (consumeNonce n (date_now rt) s)"
    by (auto simp: presentsValidNonce_def consumeNonce_def split: option.splits)
  then obtain s' where "consumeNonce n (date_now rt) s = (False, s')"
    by (cases "consumeNonce n (date_now rt) s") auto
  with Some assms(1) show ?thesis
    by (simp add: handleGetSession_def)
qed

lemma handleGetSession_open:
  "\<not> REQUIRE_NONCE cfg \<Longrightarrow>
   handleGetSession cfg w rt req s = (token_response (createSessionToken cfg w (date_now rt)), s)"
  by (simp add: handleGetSession_def)

lemma invalid_nonce_response_code:
  "error_field invalid_nonce_response (js ''code'') = Some (JString (js ''INVALID_NONCE''))"
  using js_type_code
  by (simp add: invalid_nonce_response_def authError_def Response_json_def error_field_def)

lemma handleGetSession_valid_store:
  assumes "reachable cfg w s" and "REQUIRE_NONCE cfg"
    and "header_get req (js ''X-Session-Nonce'') = Some n"
    and "s n = Some e" and "date_now rt < e"
  shows "handleGetSession cfg w rt req s =
           (token_response (createSessionToken cfg w (date_now_later rt)), s(n := None))"
proof -
  from reachable_entry [OF assms(1,4)] have "n \<noteq> []" and "e \<noteq> 0" by auto
  with assms(4,5) have "consumeNonce n (date_now rt) s = (True, s(n := None))"
    by (simp add: consumeNonce_def)
  with assms(2,3) \<open>n \<noteq> []\<close> show ?thesis
    by (simp add: handleGetSession_def)
qed

lemma handleGetSession_store:
  assumes "reachable cfg w s" and "REQUIRE_NONCE cfg"
  shows "snd (handleGetSession cfg w rt req s) =
           (case header_get req (js ''X-Session-Nonce'') of
              None \<Rightarrow> s
            | Some n \<Rightarrow> s(n := None))"
proof (cases "header_get req (js ''X-Session-Nonce'')")
  case None
  with assms(2) show ?thesis by (simp add: handleGetSession_def)
next
  case hdr: (Some n)
  show ?thesis
  proof (cases "s n")
    case None
    then have "s(n := None) = s" by (simp add: fun_upd_idem)
    moreover from None have "consumeNonce n (date_now rt) s = (False, s)"
      by (simp add: consumeNonce_def)
    ultimately show ?thesis using hdr assms(2) by (simp add: handleGetSession_def)
  next
    case entry: (Some e)
    from reachable_entry [OF assms(1) entry] have "n \<noteq> []" and "e \<noteq> 0" by auto
    with entry have "consumeNonce n (date_now rt) s = (date_now rt < e, s(n := None))"
      by (simp add: consumeNonce_def)
    with hdr assms(2) \<open>n \<noteq> []\<close> show ?thesis
      by (simp add: handleGetSession_def)
  qed
qed

lemma handleGetSession_absent:
  assumes "REQUIRE_NONCE cfg"
    and "header_get req (js ''X-Session-Nonce'') = Some n" and "s n = None"
  shows "fst (handleGetSession cfg w rt req s) = invalid_nonce_response"
  using assms by (simp add: handleGetSession_def consumeNonce_def)

text \<open>
  C6. For a GET /api/session request in a reachable store. With a configured session
  secret, a request presenting in \<open>X-Session-Nonce\<close> a nonce that is stored and not
  expired gets 200 with the token that jose signs under the session secret, and the
  nonce is consumed: the handler leaves the store without it, so the same request
  handled again, at any time, gets 403. Every other request gets 403 with an
  \<open>AuthenticationError\<close> payload of code \<open>INVALID_NONCE\<close>; a presented nonce is removed
  from the store in that case too. Without a configured secret every request gets the
  token and the store is untouched.
\<close>

theorem session_issuance_gate:
  assumes "reachable cfg w s"
    and "req_method req = js ''GET''" and "pathname req = js ''/api/session''"
  shows "(REQUIRE_NONCE cfg \<and> presentsValidNonce req (date_now rt) s \<longrightarrow>
            status (fst (handleRequest cfg w rt req s)) = 200 \<and>
            body (fst (handleRequest cfg w rt req s)) =
              Json (JObject [(js ''token'',
                JString (jose_sign w (SESSION_SECRET cfg) (date_now_later rt div 1000)))]) \<and>
            (\<forall>rt'. status (fst (handleRequest cfg w rt' req
                                  (snd (handleRequest cfg w rt req s)))) = 403)) \<and>
         (REQUIRE_NONCE cfg \<and> \<not> presentsValidNonce req (date_now rt) s \<longrightarrow>
            status (fst (handleRequest cfg w rt req s)) = 403 \<and>
            error_field (fst (handleRequest cfg w rt req s)) (js ''type'') =
              Some (JString (js ''AuthenticationError'')) \<and>
            error_field (fst (handleRequest cfg w rt req s)) (js ''code'') =
              Some (JString (js ''INVALID_NONCE''))) \<and>
         (REQUIRE_NONCE cfg \<longrightarrow>
            snd (handleRequest cfg w rt req s) =
              (case header_get req (js ''X-Session-Nonce'') of
                 None \<Rightarrow> s
               | Some nonce \<Rightarrow> s(nonce := None))) \<and>
         (\<not> REQUIRE_NONCE cfg \<longrightarrow>
            status (fst (handleRequest cfg w rt req s)) = 200 \<and>
            body (fst (handleRequest cfg w rt req s)) =
              Json (JObject [(js ''token'',
                JString (jose_sign w (SESSION_SECRET cfg) (date_now rt div 1000)))]) \<and>
            snd (handleRequest cfg w rt req s) = s)"
proof (intro conjI impI allI)
  note route = get_session_route [OF assms(2,3)]
  {
    assume a: "REQUIRE_NONCE cfg \<and> presentsValidNonce req (date_now rt) s"
    then obtain n e where
      hdr: "header_get req (js ''X-Session-Nonce'') = Some n" and
      entry: "s n = Some e" and live: "date_now rt < e"
      by (auto simp: presentsValidNonce_def split: option.splits)
    from a have rn: "REQUIRE_NONCE cfg" by simp
    note issued = handleGetSession_valid_store [OF assms(1) rn hdr entry live]
    show "status (fst (handleRequest cfg w rt req s)) = 200"
      by (simp add: route issued token_response_status)
    show "body (fst (handleRequest cfg w rt req s)) =
            Json (JObject [(js ''token'',
              JString (jose_sign w (SESSION_SECRET cfg) (date_now_later rt div 1000)))])"
      by (simp add: route issued token_response_body createSessionToken_def)
    fix rt'
    have "fst (handleGetSession cfg w rt' req (s(n := None))) = invalid_nonce_response"
      by (rule handleGetSession_absent [OF rn hdr]) simp
    then show "status (fst (handleRequest cfg w rt' req (snd (handleRequest cfg w rt req s)))) = 403"
      by (simp add: route issued invalid_nonce_response_status)
  }
  {
    assume a: "REQUIRE_NONCE cfg \<and> \<not> presentsValidNonce req (date_now rt) s"
    then have r: "fst (handleRequest cfg w rt req s) = invalid_nonce_response"
      using handleGetSession_invalid [of cfg req rt s w] by (simp add: route)
    show "status (fst (handleRequest cfg w rt req s)) = 403"
      by (simp add: r invalid_nonce_response_status)
    show "error_field (fst (handleRequest cfg w rt req s)) (js ''type'') =
            Some (JString (js ''AuthenticationError''))"
      by (simp add: r invalid_nonce_response_type)
    show "error_field (fst (handleRequest cfg w rt req s)) (js ''code'') =
            Some (JString (js ''INVALID_NONCE''))"
      by (simp add: r invalid_nonce_response_code)
  }
  {
    assume "REQUIRE_NONCE cfg"
    from handleGetSession_store [OF assms(1) this, of rt req]
    show "snd (handleRequest cfg w rt req s) =
            (case header_get req (js ''X-Session-Nonce'') of
               None \<Rightarrow> s
             | Some nonce \<Rightarrow> s(nonce := None))"
      by (simp add: route)
  }
  {
    assume a: "\<not> REQUIRE_NONCE cfg"
    note opened = handleGetSession_open [OF a, of w rt req s]
    show "status (fst (handleRequest cfg w rt req s)) = 200"
      by (simp add: route opened token_response_status)
    show "body (fst (handleRequest cfg w rt req s)) =
            Json (JObject [(js ''token'',
              JString (jose_sign w (SESSION_SECRET cfg) (date_now rt div 1000)))])"
      by (simp add: route opened token_response_body createSessionToken_def)
    show "snd (handleRequest cfg w rt req s) = s"
      by (simp add: route opened)
  }
qed

theorem session_issuance_gate_witness:
  "REQUIRE_NONCE sample_config \<and>
   presentsValidNonce (sample_request (js ''GET'') (js ''/api/session'')) 1000 sample_store \<and>
   status (fst (handleRequest sample_config sample_world sample_runtime
                  (sample_request (js ''GET'') (js ''/api/session'')) sample_store)) = 200 \<and>
   body (fst (handleRequest sample_config sample_world sample_runtime
                  (sample_request (js ''GET'') (js ''/api/session'')) sample_store)) =
     Json (JObject [(js ''token'', JString (js ''header.payload.signature''))]) \<and>
   snd (handleRequest sample_config sample_world sample_runtime
          (sample_request (js ''GET'') (js ''/api/session'')) sample_store) = Map.empty \<and>
   status (fst (handleRequest sample_config sample_world sample_runtime
                  (sample_request (js ''GET'') (js ''/api/session''))
                  (snd (handleRequest sample_config sample_world sample_runtime
                          (sample_request (js ''GET'') (js ''/api/session'')) sample_store))))
     = 403 \<and>
   \<not> presentsValidNonce (sample_request (js ''GET'') (js ''/api/session'')) 1000 Map.empty \<and>
   status (fst (handleRequest sample_config sample_world sample_runtime
                  (sample_request (js ''GET'') (js ''/api/session'')) Map.empty)) = 403 \<and>
   \<not> REQUIRE_NONCE dev_config \<and>
   status (fst (handleRequest dev_config sample_world sample_runtime
                  (sample_request (js ''GET'') (js ''/api/session'')) Map.empty)) = 200 \<and>
   snd (handleRequest dev_config sample_world sample_runtime
          (sample_request (js ''GET'') (js ''/api/session'')) Map.empty) = Map.empty"
proof -
  let ?req = "sample_request (js ''GET'') (js ''/api/session'')"
  have m: "req_method ?req = js ''GET''" and p: "pathname ?req = js ''/api/session''"
    by (simp_all add: sample_request_def)
  have now: "date_now sample_runtime = 1000"
    by (simp add: sample_runtime_def)
  have req: "REQUIRE_NONCE sample_config"
    by (simp add: REQUIRE_NONCE_def sample_config_def js_def)
  have "open": "\<not> REQUIRE_NONCE dev_config"
    by (simp add: REQUIRE_NONCE_def dev_config_def)
  have valid: "presentsValidNonce ?req 1000 sample_store"
    by (simp add: presentsValidNonce_def sample_request_def sample_store_eq)
  have invalid: "\<not> presentsValidNonce ?req 1000 Map.empty"
    by (simp add: presentsValidNonce_def sample_request_def)
  have hdr: "header_get ?req (js ''X-Session-Nonce'') = Some sample_nonce"
    by (simp add: sample_request_def)
  have sign: "jose_sign sample_world k i = js ''header.payload.signature''" for k i
    by (simp add: sample_world_def)
  have gone: "sample_store(sample_nonce := None) = Map.empty"
    by (simp add: sample_store_eq)
  show ?thesis
    using session_issuance_gate [OF sample_store_reachable m p, of sample_runtime]
      session_issuance_gate [OF reachable.start m p, of sample_config sample_runtime sample_world]
      session_issuance_gate [OF reachable.start m p, of dev_config sample_runtime sample_world]
      now req "open" valid invalid hdr sign gone
    by simp
qed

section \<open>Router: CORS headers and the index route\<close>

lemma carriesCors_json: "carriesCorsHeaders (Response_json d st getCorsHeaders)"
  by (auto simp: carriesCorsHeaders_def Response_json_def)

lemma carriesCors_plain: "carriesCorsHeaders (Response b st getCorsHeaders)"
  by (simp add: carriesCorsHeaders_def Response_def)

lemma carriesCors_extra: "carriesCorsHeaders (Response b st (h # getCorsHeaders))"
  by (auto simp: carriesCorsHeaders_def Response_def)

lemma formatErrorResponse_cors: "carriesCorsHeaders (formatErrorResponse e st c)"
  by (simp add: formatErrorResponse_def carriesCors_json)

lemma authError_cors: "carriesCorsHeaders (authError c m st)"
  by (simp add: authError_def carriesCors_json)

lemma handleSynthesis_cors: "carriesCorsHeaders (handleSynthesis w req)"
  by (auto simp: handleSynthesis_def synthesis_try_def synthesis_catch_def Let_def
      formatErrorResponse_cors audio_response_def carriesCors_extra
      split: sum.splits option.splits speak_outcome.splits)

lemma handleMetadata_cors: "carriesCorsHeaders (handleMetadata w)"
  by (auto simp: handleMetadata_def metadata_error_def carriesCors_json split: sum.splits)

lemma checkAuth_cors: "checkAuth cfg w req = Some r \<Longrightarrow> carriesCorsHeaders r"
  by (auto simp: checkAuth_def Let_def authError_cors split: if_splits sum.splits bool.splits)

lemma handleGetSession_cors: "carriesCorsHeaders (fst (handleGetSession cfg w rt req s))"
  by (auto simp: handleGetSession_def invalid_nonce_response_def token_response_def
      authError_cors carriesCors_json split: option.splits prod.splits)

lemma handleServeIndex_built_cors:
  "frontendBuilt cfg \<Longrightarrow> carriesCorsHeaders (fst (handleServeIndex cfg rt s))"
  by (auto simp: handleServeIndex_def frontendBuilt_def Let_def carriesCors_extra
      split: option.splits)

lemma handleRequest_cors_when_built:
  "frontendBuilt cfg \<or> \<not> isIndexRequest req \<Longrightarrow>
   carriesCorsHeaders (fst (handleRequest cfg w rt req s))"
  by (auto simp: handleRequest_def isIndexRequest_def handlePreflight_def carriesCors_plain
      handleServeIndex_built_cors handleGetSession_cors handleSynthesis_cors handleMetadata_cors
      not_found_response_def carriesCors_json
      split: option.splits dest: checkAuth_cors)

text \<open>
  C9 at the index route of a server started without a built frontend: the request is
  not a preflight, and the 404 response of \<open>handleServeIndex\<close> has no header at all,
  while every other response carries the CORS headers
  (\<open>handleRequest_cors_when_built\<close>).
\<close>

theorem unbuilt_index_response_lacks_cors:
  "req_method (sample_request (js ''GET'') (js ''/'')) \<noteq> js ''OPTIONS'' \<and>
   fst (handleRequest dev_config sample_world sample_runtime
          (sample_request (js ''GET'') (js ''/'')) Map.empty)
     = \<lparr>status = 404, headers = [], body = Text not_built_message\<rparr> \<and>
   \<not> carriesCorsHeaders (fst (handleRequest dev_config sample_world sample_runtime
          (sample_request (js ''GET'') (js ''/'')) Map.empty))"
proof -
  have ne: "js ''GET'' \<noteq> js ''OPTIONS''" by (simp add: js_def)
  then have r: "fst (handleRequest dev_config sample_world sample_runtime
          (sample_request (js ''GET'') (js ''/'')) Map.empty)
     = \<lparr>status = 404, headers = [], body = Text not_built_message\<rparr>"
    by (simp add: handleRequest_def sample_request_def handleServeIndex_def dev_config_def
        Response_def)
  have "\<not> carriesCorsHeaders \<lparr>status = 404, headers = [], body = Text not_built_message\<rparr>"
    by (simp add: carriesCorsHeaders_def getCorsHeaders_def)
  with r ne show ?thesis by (simp add: sample_request_def)
qed

lemma index_route:
  assumes "req_method req \<noteq> js ''OPTIONS''"
    and "pathname req = js ''/'' \<or> pathname req = js ''/index.html''"
  shows "handleRequest cfg w rt req s = handleServeIndex cfg rt s"
  using assms by (auto simp: handleRequest_def)

text \<open>
  C10, as the code has it. A request that is not a preflight and whose path is "/" or
  "/index.html" is routed to the index handler whatever its method, and the answer is
  never 405. When a non-empty index template was read at startup, the answer is 200
  with the page, and the nonce generated from the random bytes is registered with the
  expiry now + 5 minutes, after the sweep. When the frontend is not built, the answer
  is 404 and the store is unchanged.
\<close>

theorem index_route_by_pathname:
  assumes "req_method req \<noteq> js ''OPTIONS''"
    and "pathname req = js ''/'' \<or> pathname req = js ''/index.html''"
  shows "(\<forall>template. indexHtmlTemplate cfg = Some template \<and> template \<noteq> [] \<longrightarrow>
            status (fst (handleRequest cfg w rt req s)) = 200 \<and>
            body (fst (handleRequest cfg w rt req s)) =
              Text (replaceFirst template (js ''</head>'')
                      (nonce_meta_tag (generateNonce (random_values rt)))) \<and>
            snd (handleRequest cfg w rt req s) =
              (sweepExpired (date_now rt) s)
                (generateNonce (random_values rt) \<mapsto> date_now_later rt + NONCE_TTL_MS)) \<and>
         (\<not> frontendBuilt cfg \<longrightarrow>
            status (fst (handleRequest cfg w rt req s)) = 404 \<and>
            body (fst (handleRequest cfg w rt req s)) = Text not_built_message \<and>
            snd (handleRequest cfg w rt req s) = s) \<and>
         status (fst (handleRequest cfg w rt req s)) \<noteq> 405"
  unfolding index_route [OF assms]
  by (auto simp: handleServeIndex_def frontendBuilt_def Let_def Response_def split: option.splits)

theorem index_route_by_pathname_witness:
  "status (fst (handleRequest sample_config sample_world sample_runtime
                  (sample_request (js ''DELETE'') (js ''/index.html'')) Map.empty)) = 200 \<and>
   snd (handleRequest sample_config sample_world sample_runtime
          (sample_request (js ''DELETE'') (js ''/index.html'')) Map.empty) sample_nonce
     = Some 301001 \<and>
   status (fst (handleRequest dev_config sample_world sample_runtime
                  (sample_request (js ''POST'') (js ''/'')) Map.empty)) = 404 \<and>
   snd (handleRequest dev_config sample_world sample_runtime
          (sample_request (js ''POST'') (js ''/'')) Map.empty) = Map.empty"
proof -
  have m1: "req_method (sample_request (js ''DELETE'') (js ''/index.html'')) \<noteq> js ''OPTIONS''"
    and m2: "req_method (sample_request (js ''POST'') (js ''/'')) \<noteq> js ''OPTIONS''"
    by (simp_all add: sample_request_def js_def)
  have p1: "pathname (sample_request (js ''DELETE'') (js ''/index.html'')) = js ''/'' \<or>
            pathname (sample_request (js ''DELETE'') (js ''/index.html'')) = js ''/index.html''"
    and p2: "pathname (sample_request (js ''POST'') (js ''/'')) = js ''/'' \<or>
             pathname (sample_request (js ''POST'') (js ''/'')) = js ''/index.html''"
    by (simp_all add: sample_request_def)
  have t: "indexHtmlTemplate sample_config = Some (js ''<html><head></head><body></body></html>'')
           \<and> js ''<html><head></head><body></body></html>'' \<noteq> []"
    by (simp add: sample_config_def js_def)
  have d: "\<not> frontendBuilt dev_config"
    by (simp add: frontendBuilt_def dev_config_def)
  show ?thesis
    using index_route_by_pathname [OF m1 p1, of sample_config sample_world sample_runtime Map.empty]
      index_route_by_pathname [OF m2 p2, of dev_config sample_world sample_runtime Map.empty]
      t d sample_nonce_generated
    by (simp add: NONCE_TTL_MS_def sample_runtime_def)
qed

text \<open>
  C10 as stated fails: a POST to "/" on a server without a built frontend gets 404 and
  registers no nonce.
\<close>

theorem index_route_unbuilt_counterexample:
  "req_method (sample_request (js ''POST'') (js ''/'')) \<noteq> js ''OPTIONS'' \<and>
   pathname (sample_request (js ''POST'') (js ''/'')) = js ''/'' \<and>
   status (fst (handleRequest dev_config sample_world sample_runtime
                  (sample_request (js ''POST'') (js ''/'')) Map.empty)) = 404 \<and>
   snd (handleRequest dev_config sample_world sample_runtime
          (sample_request (js ''POST'') (js ''/'')) Map.empty) = Map.empty"
proof -
  have ne: "js ''POST'' \<noteq> js ''OPTIONS''" by (simp add: js_def)
  then show ?thesis
    by (simp add: handleRequest_def sample_request_def handleServeIndex_def dev_config_def
        Response_def)
qed

end
